theory Spec2Isabelle
  imports Complex_Main
begin

section \<open>JavaScript values used by the scheduling code\<close>

text \<open>
  A \<^verbatim>\<open>Date\<close> is its time value \<^verbatim>\<open>getTime()\<close>: milliseconds since the epoch, an
  integer. A JavaScript number that may be \<^verbatim>\<open>NaN\<close> is an \<open>option\<close>, with \<open>None\<close>
  for \<^verbatim>\<open>NaN\<close>; every comparison with \<^verbatim>\<open>NaN\<close> is false.
\<close>

type_synonym instant = int

definition num_lt :: "('a::linorder) option \<Rightarrow> 'a option \<Rightarrow> bool" where
  "num_lt a b = (case (a, b) of (Some x, Some y) \<Rightarrow> x < y | _ \<Rightarrow> False)"

definition num_le :: "('a::linorder) option \<Rightarrow> 'a option \<Rightarrow> bool" where
  "num_le a b = (case (a, b) of (Some x, Some y) \<Rightarrow> x \<le> y | _ \<Rightarrow> False)"

definition isDigit :: "char \<Rightarrow> bool" where
  "isDigit c = (c \<in> set ''0123456789'')"

definition isWhite :: "char \<Rightarrow> bool" where
  "isWhite c = (c \<in> {CHR '' '', CHR 0x09, CHR 0x0A, CHR 0x0B, CHR 0x0C, CHR 0x0D})"

definition digitVal :: "char \<Rightarrow> int" where
  "digitVal c = int (of_char c) - 48"

definition digitsVal :: "string \<Rightarrow> int" where
  "digitsVal s = foldl (\<lambda>a c. a * 10 + digitVal c) 0 s"

text \<open>\<^verbatim>\<open>String.prototype.trim\<close>.\<close>

definition trim :: "string \<Rightarrow> string" where
  "trim s = rev (dropWhile isWhite (rev (dropWhile isWhite s)))"

text \<open>
  \<^verbatim>\<open>parseInt(s, 10)\<close>: leading white space is skipped, a sign is read, then the longest
  run of decimal digits; no digit gives \<^verbatim>\<open>NaN\<close>.
\<close>

definition parseInt :: "string \<Rightarrow> int option" where
  "parseInt s =
     (let t = dropWhile isWhite s;
          neg = (t \<noteq> [] \<and> hd t = CHR ''-'');
          u = (if t \<noteq> [] \<and> (hd t = CHR ''-'' \<or> hd t = CHR ''+'') then tl t else t);
          ds = takeWhile isDigit u
      in if ds = [] then None
         else Some (if neg then - digitsVal ds else digitsVal ds))"

text \<open>
  \<^verbatim>\<open>Number(s)\<close> on a string, for the literals a clock field can hold: white space is
  trimmed, the empty string is 0, a run of decimal digits is its value. Every other
  string is taken as \<^verbatim>\<open>NaN\<close> (signs, fractions, exponents and radix prefixes are left
  out: \<^verbatim>\<open>HHMM_REGEX\<close> admits none of them in a stored time).
\<close>

definition Number :: "string \<Rightarrow> int option" where
  "Number s =
     (let t = trim s
      in if t = [] then Some 0
         else if list_all isDigit t then Some (digitsVal t) else None)"

text \<open>\<^verbatim>\<open>s.split(":")\<close>.\<close>

fun split_colon :: "string \<Rightarrow> string list" where
  "split_colon [] = [[]]"
| "split_colon (c # cs) =
     (if c = CHR '':'' then [] # split_colon cs
      else (case split_colon cs of
              w # ws \<Rightarrow> (c # w) # ws
            | [] \<Rightarrow> [[c]]))"

section \<open>Interval arithmetic (utils/time.js)\<close>

record interval =
  i_start :: instant
  i_end :: instant

text \<open>
  \<^verbatim>\<open>overlapInterval(a, b)\<close>: the intersection of two intervals, \<^verbatim>\<open>null\<close> when
  \<^verbatim>\<open>start >= end\<close>.
\<close>

definition overlapInterval :: "interval \<Rightarrow> interval \<Rightarrow> interval option" where
  "overlapInterval a b =
     (let s = max (i_start a) (i_start b);
          e = min (i_end a) (i_end b)
      in if s \<ge> e then None else Some \<lparr>i_start = s, i_end = e\<rparr>)"

section \<open>Stored documents\<close>

datatype status = scheduled | cancelled | completed

text \<open>
  models/Session.js. The document id is a number here; therapist and client references
  are the 24-character id strings the controllers compare.
\<close>

record session =
  sid :: nat
  therapist :: string
  client :: string
  s_start :: instant
  s_end :: instant
  s_status :: status
  s_notes :: "string option"

text \<open>
  \<^verbatim>\<open>overlapQuery(start, end)\<close> builds the filter
  \<^verbatim>\<open>{ start: { $lt: end }, end: { $gt: start } }\<close>; the model is the filter's meaning on
  one stored session.
\<close>

definition overlapQuery :: "instant \<Rightarrow> instant \<Rightarrow> session \<Rightarrow> bool" where
  "overlapQuery start end' s = (s_start s < end' \<and> s_end s > start)"

text \<open>
  The availability controller's \<^verbatim>\<open>timeToMinutes\<close>
  (\<^verbatim>\<open>str.trim().split(":").map(Number)\<close>, then \<^verbatim>\<open>h * 60 + m\<close>): a missing second field is
  \<^verbatim>\<open>undefined\<close>, which makes the sum \<^verbatim>\<open>NaN\<close>.
\<close>

definition timeToMinutes :: "string \<Rightarrow> int option" where
  "timeToMinutes str =
     (case map Number (split_colon (trim str)) of
        h # m # _ \<Rightarrow> (case (h, m) of (Some hv, Some mv) \<Rightarrow> Some (hv * 60 + mv) | _ \<Rightarrow> None)
      | _ \<Rightarrow> None)"

definition timesOverlap :: "string \<Rightarrow> string \<Rightarrow> string \<Rightarrow> string \<Rightarrow> bool" where
  "timesOverlap start1 end1 start2 end2 =
     (let s1 = timeToMinutes start1;
          e1 = timeToMinutes end1;
          s2 = timeToMinutes start2;
          e2 = timeToMinutes end2
      in num_lt s1 e2 \<and> num_lt s2 e1)"

text \<open>
  models/Availability.js: one weekly window of a therapist, the weekday by name, the two
  clock times as \<^verbatim>\<open>"HH:mm"\<close> text.
\<close>

record availability =
  a_therapist :: string
  a_dayOfWeek :: string
  a_startTime :: string
  a_endTime :: string

text \<open>models/Therapist.js: the weekly blocks (weekday 0 to 6) and the time-off list.\<close>

record timeBlock =
  b_dayOfWeek :: int
  b_startTime :: string
  b_endTime :: string

record therapistDoc =
  t_id :: string
  weeklyAvailability :: "timeBlock list"
  timeOff :: "interval list"

text \<open>models/Client.js.\<close>

record timeRange =
  tr_startTime :: string
  tr_endTime :: string

record hardConstraints =
  noEarlyThan :: "string option"
  noLaterThan :: "string option"

record preferences =
  preferredDaysOfWeek :: "int list"
  preferredTimeRanges :: "timeRange list"
  preferredTherapistIds :: "string list"
  p_hardConstraints :: "hardConstraints option"

record clientDoc =
  c_id :: string
  c_preferences :: "preferences option"

text \<open>The collections the scheduling code reads and writes.\<close>

record db =
  sessions :: "session list"
  availabilities :: "availability list"
  therapists :: "therapistDoc list"
  clients :: "clientDoc list"

section \<open>Requests and responses\<close>

text \<open>
  A time field of a request body, as a handler sorts it: answered with "is required"
  (\<^verbatim>\<open>null\<close>, or a value the handler does not read as a time), turned into \<^verbatim>\<open>null\<close> by
  \<^verbatim>\<open>toDate\<close>, or given with the instant \<^verbatim>\<open>toDate\<close> makes of it.
\<close>

datatype body_time = Absent | Unparsable | Parsed instant

datatype role = admin | client_role | therapist_role

text \<open>The result of \<^verbatim>\<open>resolveActorIds\<close>.\<close>

record actorIds =
  a_role :: "role option"
  a_clientId :: "string option"
  a_therapistId :: "string option"

text \<open>One constructor for each rejection the session controller sends.\<close>

datatype reject =
    NotAuthorizedAsClient
  | TherapistIdRequired
  | TherapistIdMalformed
  | StartAtRequired
  | StartAtInvalid
  | EndAtRequired
  | EndAtInvalid
  | EndNotAfterStart
  | TherapistNotFound
  | ClientProfileNotFound
  | NotInAvailability
  | SlotAlreadyBooked
  | ClientAlreadyBooked
  | SessionNotFound
  | CancelledSession
  | NotScheduled
  | NoPermission
  | TherapistBusy
  | CaughtError

fun httpStatus :: "reject \<Rightarrow> nat" where
  "httpStatus NotAuthorizedAsClient = 403"
| "httpStatus TherapistNotFound = 404"
| "httpStatus ClientProfileNotFound = 403"
| "httpStatus SlotAlreadyBooked = 409"
| "httpStatus ClientAlreadyBooked = 409"
| "httpStatus SessionNotFound = 404"
| "httpStatus NoPermission = 403"
| "httpStatus TherapistBusy = 409"
| "httpStatus _ = 400"

text \<open>The reason codes of the reschedule check.\<close>

datatype reason =
  INVALID_TIME | PAST | NOT_FOUND | INVALID_STATUS | FORBIDDEN | NOT_IN_AVAILABILITY | CONFLICT

text \<open>
  The request of \<^verbatim>\<open>bookSession\<close>. \<open>b_clientId\<close> is
  \<^verbatim>\<open>req.user.clientId ?? (await resolveActorIds(req)).clientId\<close>; \<open>b_therapistId\<close> is \<open>None\<close>
  when the body's \<^verbatim>\<open>therapistId\<close> is \<^verbatim>\<open>null\<close> or not a string.
\<close>

record bookRequest =
  b_clientId :: "string option"
  b_therapistId :: "string option"
  b_startAt :: body_time
  b_endAt :: body_time
  b_notes :: "string option"

text \<open>
  The request of the two reschedule handlers: the actor, the id of the session in the
  path, and the two time fields of the body.
\<close>

record rescheduleRequest =
  r_actor :: actorIds
  r_id :: nat
  r_startAt :: body_time
  r_endAt :: body_time

section \<open>Session controller helpers\<close>

definition isHex :: "char \<Rightarrow> bool" where
  "isHex c = (c \<in> set ''0123456789abcdefABCDEF'')"

definition isValidObjectIdString :: "string \<Rightarrow> bool" where
  "isValidObjectIdString str = (let t = trim str in length t = 24 \<and> list_all isHex t)"

definition DAYS_ENUM :: "string list" where
  "DAYS_ENUM =
     [''SUNDAY'', ''MONDAY'', ''TUESDAY'', ''WEDNESDAY'', ''THURSDAY'', ''FRIDAY'', ''SATURDAY'']"

text \<open>
  UTC fields of a \<^verbatim>\<open>Date\<close>. Day 0 of the epoch was a Thursday; \<open>div\<close> and \<open>mod\<close> on
  \<open>int\<close> round down, as the date algorithms do for instants before 1970.
\<close>

definition getUTCDay :: "instant \<Rightarrow> int" where
  "getUTCDay d = (d div 86400000 + 4) mod 7"

definition getUTCHours :: "instant \<Rightarrow> int" where
  "getUTCHours d = (d div 3600000) mod 24"

definition getUTCMinutes :: "instant \<Rightarrow> int" where
  "getUTCMinutes d = (d div 60000) mod 60"

definition dateToDayOfWeekUTC :: "instant \<Rightarrow> string" where
  "dateToDayOfWeekUTC d =
     (let day = getUTCDay d
      in if 0 \<le> day \<and> day < 7 then DAYS_ENUM ! nat day else ''MONDAY'')"

text \<open>\<^verbatim>\<open>String(n).padStart(2, "0")\<close> for a field of a clock time, \<open>0 \<le> n < 100\<close>.\<close>

definition digitChar :: "int \<Rightarrow> char" where
  "digitChar n = ''0123456789'' ! nat n"

definition pad2 :: "int \<Rightarrow> string" where
  "pad2 n = [digitChar (n div 10), digitChar (n mod 10)]"

definition dateToHHmmUTC :: "instant \<Rightarrow> string" where
  "dateToHHmmUTC d = pad2 (getUTCHours d) @ '':'' @ pad2 (getUTCMinutes d)"

text \<open>
  The minutes that \<^verbatim>\<open>isWithinAvailability\<close> reads from an \<^verbatim>\<open>"HH:mm"\<close> text:
  \<^verbatim>\<open>parseInt(s.slice(0, 2), 10) * 60 + parseInt(s.slice(3), 10)\<close>.
\<close>

definition sliceMinutes :: "string \<Rightarrow> int option" where
  "sliceMinutes s =
     (case (parseInt (take 2 s), parseInt (drop 3 s)) of
        (Some h, Some m) \<Rightarrow> Some (h * 60 + m)
      | _ \<Rightarrow> None)"

text \<open>The \<^verbatim>\<open>for (const s of slots)\<close> loop of \<^verbatim>\<open>isWithinAvailability\<close>.\<close>

fun withinAny :: "int option \<Rightarrow> int option \<Rightarrow> availability list \<Rightarrow> bool" where
  "withinAny startMin endMin [] = False"
| "withinAny startMin endMin (s # slots) =
     (let sMin = sliceMinutes (a_startTime s);
          eMin = sliceMinutes (a_endTime s)
      in if num_le sMin startMin \<and> num_le endMin eMin then True
         else withinAny startMin endMin slots)"

definition isWithinAvailability :: "db \<Rightarrow> string \<Rightarrow> instant \<Rightarrow> instant \<Rightarrow> bool" where
  "isWithinAvailability d therapistId start end' =
     (let dayOfWeek = dateToDayOfWeekUTC start;
          startStr = dateToHHmmUTC start;
          endStr = dateToHHmmUTC end';
          slots = filter (\<lambda>a. a_therapist a = therapistId \<and> a_dayOfWeek a = dayOfWeek)
                    (availabilities d)
      in if length slots = 0 then False
         else withinAny (sliceMinutes startStr) (sliceMinutes endStr) slots)"

definition canAccessSessionStrict :: "actorIds \<Rightarrow> session \<Rightarrow> bool" where
  "canAccessSessionStrict actor sessionDoc =
     (case a_role actor of
        None \<Rightarrow> False
      | Some admin \<Rightarrow> True
      | Some client_role \<Rightarrow>
          (case a_clientId actor of
             None \<Rightarrow> False
           | Some c \<Rightarrow> c \<noteq> [] \<and> client sessionDoc = c)
      | Some therapist_role \<Rightarrow>
          (case a_therapistId actor of
             None \<Rightarrow> False
           | Some t \<Rightarrow> t \<noteq> [] \<and> therapist sessionDoc = t))"

text \<open>
  A 24-digit hexadecimal string is cast to an ObjectId when it is used in a query or
  stored; the cast does not keep the case of the letters.
\<close>

definition lowerHex :: "char \<Rightarrow> char" where
  "lowerHex c =
     (if c = CHR ''A'' then CHR ''a'' else if c = CHR ''B'' then CHR ''b''
      else if c = CHR ''C'' then CHR ''c'' else if c = CHR ''D'' then CHR ''d''
      else if c = CHR ''E'' then CHR ''e'' else if c = CHR ''F'' then CHR ''f'' else c)"

definition toObjectId :: "string \<Rightarrow> string" where
  "toObjectId s = map lowerHex s"

section \<open>Queries and writes on the session collection\<close>

text \<open>
  \<^verbatim>\<open>Session.findOne({ _id: { $ne: id }, therapist, status: { $ne: "cancelled" },
  ...overlapQuery(start, end) })\<close>; booking sends no \<^verbatim>\<open>_id\<close> clause.
\<close>

definition notExcluded :: "nat option \<Rightarrow> session \<Rightarrow> bool" where
  "notExcluded excl s = (case excl of None \<Rightarrow> True | Some i \<Rightarrow> sid s \<noteq> i)"

definition findTherapistConflict ::
  "db \<Rightarrow> nat option \<Rightarrow> string \<Rightarrow> instant \<Rightarrow> instant \<Rightarrow> session option" where
  "findTherapistConflict d excl therapistId start end' =
     find (\<lambda>s. notExcluded excl s \<and> therapist s = therapistId \<and> s_status s \<noteq> cancelled
                \<and> overlapQuery start end' s) (sessions d)"

definition findClientConflict ::
  "db \<Rightarrow> nat option \<Rightarrow> string \<Rightarrow> instant \<Rightarrow> instant \<Rightarrow> session option" where
  "findClientConflict d excl clientId start end' =
     find (\<lambda>s. notExcluded excl s \<and> client s = clientId \<and> s_status s \<noteq> cancelled
                \<and> overlapQuery start end' s) (sessions d)"

definition findSessionById :: "db \<Rightarrow> nat \<Rightarrow> session option" where
  "findSessionById d i = find (\<lambda>s. sid s = i) (sessions d)"

text \<open>
  The unique index of models/Session.js on (therapist, start, end, status), partial on
  \<^verbatim>\<open>status: "scheduled"\<close>: a write that would give two scheduled documents the same key
  fails with error code 11000.
\<close>

definition duplicateKey :: "session list \<Rightarrow> session \<Rightarrow> bool" where
  "duplicateKey ss doc =
     (s_status doc = scheduled \<and>
      list_ex (\<lambda>s. sid s \<noteq> sid doc \<and> s_status s = scheduled \<and> therapist s = therapist doc
                   \<and> s_start s = s_start doc \<and> s_end s = s_end doc) ss)"

text \<open>A new document gets an id no stored document has.\<close>

definition newId :: "session list \<Rightarrow> nat" where
  "newId ss = Suc (foldr max (map sid ss) 0)"

text \<open>\<^verbatim>\<open>Session.create([...])\<close>: \<open>None\<close> is the duplicate-key error.\<close>

definition createSession ::
  "db \<Rightarrow> string \<Rightarrow> string \<Rightarrow> instant \<Rightarrow> instant \<Rightarrow> string option \<Rightarrow> (session \<times> db) option" where
  "createSession d therapistId clientId start end' nts =
     (let created = \<lparr>sid = newId (sessions d), therapist = therapistId, client = clientId,
                      s_start = start, s_end = end', s_status = scheduled, s_notes = nts\<rparr>
      in if duplicateKey (sessions d) created then None
         else Some (created, d\<lparr>sessions := sessions d @ [created]\<rparr>))"

text \<open>\<^verbatim>\<open>existing.save()\<close> after the two assignments to \<^verbatim>\<open>start\<close> and \<^verbatim>\<open>end\<close>.\<close>

definition saveSession :: "db \<Rightarrow> session \<Rightarrow> db option" where
  "saveSession d doc =
     (if duplicateKey (sessions d) doc then None
      else Some (d\<lparr>sessions := map (\<lambda>s. if sid s = sid doc then doc else s) (sessions d)\<rparr>))"

section \<open>bookSession\<close>

text \<open>
  The checks of \<^verbatim>\<open>bookSession\<close> before the availability check, in the order the
  controller makes them. The result is the rejection sent, or the client id, the
  therapist id and the two instants the rest of the handler works with.
\<close>

definition bookPrecheck ::
  "db \<Rightarrow> bookRequest \<Rightarrow> reject + (string \<times> string \<times> instant \<times> instant)" where
  "bookPrecheck d req =
     (case b_clientId req of
        None \<Rightarrow> Inl NotAuthorizedAsClient
      | Some clientId \<Rightarrow>
     if clientId = [] then Inl NotAuthorizedAsClient else
     (case b_therapistId req of
        None \<Rightarrow> Inl TherapistIdRequired
      | Some therapistId \<Rightarrow>
     let therapistIdStr = trim therapistId in
     if therapistIdStr = [] then Inl TherapistIdRequired else
     if \<not> isValidObjectIdString therapistIdStr then Inl TherapistIdMalformed else
     (case b_startAt req of
        Absent \<Rightarrow> Inl StartAtRequired
      | Unparsable \<Rightarrow> Inl StartAtInvalid
      | Parsed startDate \<Rightarrow>
     (case b_endAt req of
        Absent \<Rightarrow> Inl EndAtRequired
      | Unparsable \<Rightarrow> Inl EndAtInvalid
      | Parsed endDate \<Rightarrow>
     if endDate \<le> startDate then Inl EndNotAfterStart else
     if find (\<lambda>t. t_id t = toObjectId therapistIdStr) (therapists d) = None
       then Inl TherapistNotFound else
     if find (\<lambda>c. c_id c = clientId) (clients d) = None
       then Inl ClientProfileNotFound
     else Inr (clientId, toObjectId therapistIdStr, startDate, endDate)))))"

text \<open>The availability check that follows them.\<close>

definition bookValidate ::
  "db \<Rightarrow> bookRequest \<Rightarrow> reject + (string \<times> string \<times> instant \<times> instant)" where
  "bookValidate d req =
     (case bookPrecheck d req of
        Inl e \<Rightarrow> Inl e
      | Inr (clientId, therapistId, startDate, endDate) \<Rightarrow>
          if \<not> isWithinAvailability d therapistId startDate endDate
            then Inl NotInAvailability
          else Inr (clientId, therapistId, startDate, endDate))"

text \<open>
  The two conflict lookups. The transactional branch and the plain branch of the
  controller make the same lookups and the same insert, in the same order.
\<close>

definition bookConflictChecks ::
  "db \<Rightarrow> string \<Rightarrow> string \<Rightarrow> instant \<Rightarrow> instant \<Rightarrow> reject option" where
  "bookConflictChecks d clientId therapistId startDate endDate =
     (if findTherapistConflict d None therapistId startDate endDate \<noteq> None
        then Some SlotAlreadyBooked
      else if findClientConflict d None clientId startDate endDate \<noteq> None
        then Some ClientAlreadyBooked
      else None)"

text \<open>The insert; the duplicate-key error is answered with 409 in the outer handler.\<close>

definition bookInsert ::
  "db \<Rightarrow> string \<Rightarrow> string \<Rightarrow> instant \<Rightarrow> instant \<Rightarrow> string option
     \<Rightarrow> (reject + session) \<times> db" where
  "bookInsert d clientId therapistId startDate endDate nts =
     (case createSession d therapistId clientId startDate endDate nts of
        None \<Rightarrow> (Inl SlotAlreadyBooked, d)
      | Some (created, d') \<Rightarrow> (Inr created, d'))"

definition bookSession :: "db \<Rightarrow> bookRequest \<Rightarrow> (reject + session) \<times> db" where
  "bookSession d req =
     (case bookValidate d req of
        Inl e \<Rightarrow> (Inl e, d)
      | Inr (clientId, therapistId, startDate, endDate) \<Rightarrow>
          (case bookConflictChecks d clientId therapistId startDate endDate of
             Some e \<Rightarrow> (Inl e, d)
           | None \<Rightarrow> bookInsert d clientId therapistId startDate endDate (b_notes req)))"

section \<open>Reschedule: check and apply\<close>

text \<open>\<^verbatim>\<open>checkRescheduleSession\<close>: \<open>None\<close> is \<^verbatim>\<open>canReschedule: true\<close>.\<close>

definition checkRescheduleSession :: "db \<Rightarrow> instant \<Rightarrow> rescheduleRequest \<Rightarrow> reason option" where
  "checkRescheduleSession d now req =
     (case r_startAt req of
        Absent \<Rightarrow> Some INVALID_TIME
      | Unparsable \<Rightarrow> Some INVALID_TIME
      | Parsed start \<Rightarrow>
     (case r_endAt req of
        Absent \<Rightarrow> Some INVALID_TIME
      | Unparsable \<Rightarrow> Some INVALID_TIME
      | Parsed end' \<Rightarrow>
     if end' \<le> start then Some INVALID_TIME else
     if start \<le> now then Some PAST else
     (case findSessionById d (r_id req) of
        None \<Rightarrow> Some NOT_FOUND
      | Some existing \<Rightarrow>
     if s_status existing = cancelled \<or> s_status existing \<noteq> scheduled
       then Some INVALID_STATUS else
     if \<not> canAccessSessionStrict (r_actor req) existing then Some FORBIDDEN else
     let therapistId = therapist existing; clientId = client existing in
     if \<not> isWithinAvailability d therapistId start end' then Some NOT_IN_AVAILABILITY else
     if findTherapistConflict d (Some (sid existing)) therapistId start end' \<noteq> None
       then Some CONFLICT else
     if findClientConflict d (Some (sid existing)) clientId start end' \<noteq> None
       then Some CONFLICT
     else None)))"

text \<open>
  \<^verbatim>\<open>rescheduleSession\<close>, first the checks before the conflict lookups: the rejection
  sent, or the stored session and the two new instants.
\<close>

definition rescheduleValidate ::
  "db \<Rightarrow> rescheduleRequest \<Rightarrow> reject + (session \<times> instant \<times> instant)" where
  "rescheduleValidate d req =
     (case r_startAt req of
        Absent \<Rightarrow> Inl StartAtRequired
      | Unparsable \<Rightarrow> Inl StartAtInvalid
      | Parsed newStart \<Rightarrow>
     (case r_endAt req of
        Absent \<Rightarrow> Inl EndAtRequired
      | Unparsable \<Rightarrow> Inl EndAtInvalid
      | Parsed newEnd \<Rightarrow>
     if newEnd \<le> newStart then Inl EndNotAfterStart else
     (case findSessionById d (r_id req) of
        None \<Rightarrow> Inl SessionNotFound
      | Some existing \<Rightarrow>
     if s_status existing = cancelled then Inl CancelledSession else
     if s_status existing \<noteq> scheduled then Inl NotScheduled else
     if \<not> canAccessSessionStrict (r_actor req) existing then Inl NoPermission else
     if \<not> isWithinAvailability d (therapist existing) newStart newEnd
       then Inl NotInAvailability
     else Inr (existing, newStart, newEnd))))"

text \<open>
  Then the two conflict lookups and the write: the answer and the store after the call.
  A failed \<^verbatim>\<open>save\<close> is caught by the handler and answered with 400.
\<close>

definition rescheduleSession :: "db \<Rightarrow> rescheduleRequest \<Rightarrow> (reject + session) \<times> db" where
  "rescheduleSession d req =
     (case rescheduleValidate d req of
        Inl e \<Rightarrow> (Inl e, d)
      | Inr (existing, newStart, newEnd) \<Rightarrow>
     let therapistId = therapist existing; clientId = client existing in
     if findTherapistConflict d (Some (sid existing)) therapistId newStart newEnd \<noteq> None
       then (Inl TherapistBusy, d) else
     if findClientConflict d (Some (sid existing)) clientId newStart newEnd \<noteq> None
       then (Inl ClientAlreadyBooked, d) else
     let moved = existing\<lparr>s_start := newStart, s_end := newEnd\<rparr> in
     (case saveSession d moved of
        None \<Rightarrow> (Inl CaughtError, d)
      | Some d' \<Rightarrow> (Inr moved, d')))"

section \<open>The core invariant and sequences of calls\<close>

text \<open>The overlap test on two stored sessions: \<^verbatim>\<open>a.start < b.end && a.end > b.start\<close>.\<close>

definition overlaps :: "session \<Rightarrow> session \<Rightarrow> bool" where
  "overlaps a b = overlapQuery (s_start b) (s_end b) a"

text \<open>
  The core invariant: two different sessions that are not cancelled and share the
  therapist, or share the client, do not overlap.
\<close>

definition coreInvariant :: "db \<Rightarrow> bool" where
  "coreInvariant d =
     (\<forall>a \<in> set (sessions d). \<forall>b \<in> set (sessions d).
        sid a \<noteq> sid b \<and> s_status a \<noteq> cancelled \<and> s_status b \<noteq> cancelled
          \<and> (therapist a = therapist b \<or> client a = client b)
        \<longrightarrow> \<not> overlaps a b)"






section \<open>Availability windows as instants\<close>







section \<open>The public listing of available slots\<close>

text \<open>
  The value of \<^verbatim>\<open>Number(req.query.durationMinutes)\<close>: \<^verbatim>\<open>NaN\<close> for a missing or
  non-numeric parameter, an infinity, or a finite number.
\<close>

datatype jsnum = NaN | NegInf | Fin real | PosInf

text \<open>
  \<^verbatim>\<open>Math.max(5, Math.min(120, Number(...) || 30))\<close>. The operand of \<^verbatim>\<open>||\<close> is replaced
  by 30 when it is \<^verbatim>\<open>NaN\<close> or zero.
\<close>

definition durationMinutes :: "jsnum \<Rightarrow> real" where
  "durationMinutes q =
     (case q of
        NaN \<Rightarrow> max 5 (min 120 30)
      | Fin r \<Rightarrow> (if r = 0 then max 5 (min 120 30) else max 5 (min 120 r))
      | PosInf \<Rightarrow> max 5 120
      | NegInf \<Rightarrow> 5)"

text \<open>
  The listing's own \<^verbatim>\<open>timeToMinutes\<close>: \<^verbatim>\<open>t.split(":").map(Number)\<close> and
  \<^verbatim>\<open>(h ?? 0) * 60 + (m ?? 0)\<close>; a missing second field counts as 0.
\<close>

definition timeToMinutes_listing :: "string \<Rightarrow> int option" where
  "timeToMinutes_listing t =
     (case map Number (split_colon t) of
        [] \<Rightarrow> Some 0
      | [h] \<Rightarrow> (case h of Some hv \<Rightarrow> Some (hv * 60) | None \<Rightarrow> None)
      | h # m # _ \<Rightarrow> (case (h, m) of (Some hv, Some mv) \<Rightarrow> Some (hv * 60 + mv) | _ \<Rightarrow> None))"

text \<open>
  The \<^verbatim>\<open>while (m + durationMin <= endM)\<close> loop of \<^verbatim>\<open>generateSlotTimes\<close>. A slot is kept
  as its minute of the day; \<^verbatim>\<open>minutesToTime\<close> gives each minute a different label, so
  the set of labels is the list of minutes without repetitions.
\<close>

partial_function (option) slotLoop ::
  "real \<Rightarrow> real \<Rightarrow> real \<Rightarrow> real list \<Rightarrow> real list option" where
  "slotLoop m endM durationMin acc =
     (if m + durationMin \<le> endM then slotLoop (m + durationMin) endM durationMin (acc @ [m])
      else Some acc)"

text \<open>
  The loop over the ranges. A range with a clock time that reads as \<^verbatim>\<open>NaN\<close> adds
  nothing: the loop test is false at once.
\<close>

fun rangeLoop :: "availability list \<Rightarrow> real \<Rightarrow> real list \<Rightarrow> real list option" where
  "rangeLoop [] durationMin acc = Some acc"
| "rangeLoop (r # ranges) durationMin acc =
     (case (timeToMinutes_listing (a_startTime r), timeToMinutes_listing (a_endTime r)) of
        (Some m, Some endM) \<Rightarrow>
          (case slotLoop (real_of_int m) (real_of_int endM) durationMin acc of
             None \<Rightarrow> None
           | Some acc' \<Rightarrow> rangeLoop ranges durationMin acc')
      | _ \<Rightarrow> rangeLoop ranges durationMin acc)"

definition generateSlotTimes :: "availability list \<Rightarrow> real \<Rightarrow> real list option" where
  "generateSlotTimes ranges durationMin =
     map_option (\<lambda>acc. sort (remdups acc)) (rangeLoop ranges durationMin [])"

text \<open>\<^verbatim>\<open>ToIntegerOrInfinity\<close> on a finite number: rounding toward zero.\<close>

definition js_trunc :: "real \<Rightarrow> int" where
  "js_trunc x = (if x \<ge> 0 then \<lfloor>x\<rfloor> else \<lceil>x\<rceil>)"

text \<open>
  The test of one slot of the listing: \<^verbatim>\<open>startAt\<close> is the slot's minute on the requested
  day, \<^verbatim>\<open>endAt\<close> is \<^verbatim>\<open>new Date(startAt.getTime() + durationMinutes * 60 * 1000)\<close>, and the
  slot is free when no session of the therapist that is not cancelled has
  \<^verbatim>\<open>start < endAt\<close> and \<^verbatim>\<open>end > startAt\<close>. (The label denotes an instant only for a
  whole minute; the model places the slot at that minute in every case.)
\<close>

definition slotFree :: "db \<Rightarrow> string \<Rightarrow> int \<Rightarrow> real \<Rightarrow> real \<Rightarrow> bool" where
  "slotFree d therapistId day durationMin m =
     (let startAt = real_of_int (day * 86400000) + m * 60000;
          endAt = real_of_int (js_trunc (startAt + durationMin * 60 * 1000))
      in find (\<lambda>s. therapist s = therapistId \<and> s_status s \<noteq> cancelled
                    \<and> real_of_int (s_start s) < endAt \<and> real_of_int (s_end s) > startAt)
           (sessions d) = None)"

record listing =
  l_therapistId :: string
  l_slots :: "real list"

text \<open>The keys of \<^verbatim>\<open>byTherapist\<close>, in the order of their first record.\<close>

fun mapKeys :: "string list \<Rightarrow> string list" where
  "mapKeys [] = []"
| "mapKeys (k # ks) = k # filter (\<lambda>x. x \<noteq> k) (mapKeys ks)"

text \<open>The \<^verbatim>\<open>for (const therapistId of therapistIds)\<close> loop.\<close>

fun therapistLoop ::
  "db \<Rightarrow> availability list \<Rightarrow> int \<Rightarrow> real \<Rightarrow> string list \<Rightarrow> listing list
     \<Rightarrow> listing list option" where
  "therapistLoop d docs day durationMin [] result = Some result"
| "therapistLoop d docs day durationMin (therapistId # rest) result =
     (case generateSlotTimes (filter (\<lambda>a. a_therapist a = therapistId) docs) durationMin of
        None \<Rightarrow> None
      | Some allSlots \<Rightarrow>
          if length allSlots = 0 then therapistLoop d docs day durationMin rest result
          else
            (let freeSlots = filter (slotFree d therapistId day durationMin) allSlots
             in if length freeSlots > 0
                then therapistLoop d docs day durationMin rest
                       (result @ [\<lparr>l_therapistId = therapistId, l_slots = sort freeSlots\<rparr>])
                else therapistLoop d docs day durationMin rest result))"

text \<open>
  \<^verbatim>\<open>getAvailableSlots\<close>. The date parameter is \<open>None\<close> when it is missing, not of the form
  YYYY-MM-DD or not a date (answered with 400), and otherwise the number of its day,
  counted from the epoch. The outer \<open>option\<close> is \<open>None\<close> when the handler does not
  return.
\<close>

datatype badRequest = BadDate

definition getAvailableSlots ::
  "db \<Rightarrow> int option \<Rightarrow> jsnum \<Rightarrow> (badRequest + listing list) option" where
  "getAvailableSlots d dateParam q =
     (let durationMin = durationMinutes q
      in case dateParam of
           None \<Rightarrow> Some (Inl BadDate)
         | Some day \<Rightarrow>
             (let dateObj = day * 86400000 + 43200000;
                  dayOfWeek = DAYS_ENUM ! nat (getUTCDay dateObj);
                  availabilityDocs = filter (\<lambda>a. a_dayOfWeek a = dayOfWeek) (availabilities d);
                  therapistIds = mapKeys (map a_therapist availabilityDocs)
              in map_option Inr
                   (therapistLoop d availabilityDocs day durationMin therapistIds [])))"

section \<open>The slot suggestion service (findSlots)\<close>

text \<open>
  The service reads local time. The model takes the server's zone as a fixed offset
  \<open>tz\<close> from UTC, in milliseconds; a zone that changes its offset is outside the model.
\<close>

definition getDay :: "int \<Rightarrow> instant \<Rightarrow> int" where
  "getDay tz d = ((d + tz) div 86400000 + 4) mod 7"

definition getMinutes :: "int \<Rightarrow> instant \<Rightarrow> int" where
  "getMinutes tz d = ((d + tz) div 60000) mod 60"

text \<open>\<^verbatim>\<open>d.setHours(h, m, 0, 0)\<close>.\<close>

definition setHours :: "int \<Rightarrow> instant \<Rightarrow> int \<Rightarrow> int \<Rightarrow> instant" where
  "setHours tz d h m = ((d + tz) div 86400000) * 86400000 + h * 3600000 + m * 60000 - tz"

text \<open>
  \<^verbatim>\<open>d.setMinutes(x)\<close>: the minute field becomes \<open>x\<close> rounded toward zero; hours, seconds
  and milliseconds stay.
\<close>

definition setMinutes :: "int \<Rightarrow> instant \<Rightarrow> real \<Rightarrow> instant" where
  "setMinutes tz d x = d + (js_trunc x - getMinutes tz d) * 60000"

text \<open>
  A copy of \<^verbatim>\<open>day\<close> set to a clock time given as text:
  \<^verbatim>\<open>const [h, m] = str.split(":").map(Number); date.setHours(h, m, 0, 0)\<close>. \<open>None\<close> is
  the Invalid Date that a \<^verbatim>\<open>NaN\<close> or missing field gives.
\<close>

definition clockOn :: "int \<Rightarrow> instant \<Rightarrow> string \<Rightarrow> instant option" where
  "clockOn tz day str =
     (case map Number (split_colon str) of
        h # m # _ \<Rightarrow>
          (case (h, m) of (Some hv, Some mv) \<Rightarrow> Some (setHours tz day hv mv) | _ \<Rightarrow> None)
      | _ \<Rightarrow> None)"

text \<open>
  One bound of \<^verbatim>\<open>applyHardConstraints\<close>: an absent or empty bound is skipped, and so is
  one that gives an Invalid Date, since the comparison with it is false.
\<close>

definition hardBound :: "int \<Rightarrow> instant \<Rightarrow> string option \<Rightarrow> instant option" where
  "hardBound tz day bound =
     (case bound of
        None \<Rightarrow> None
      | Some str \<Rightarrow> if str = [] then None else clockOn tz day str)"

definition applyHardConstraints ::
  "int \<Rightarrow> instant \<Rightarrow> interval \<Rightarrow> hardConstraints option \<Rightarrow> interval option" where
  "applyHardConstraints tz day interval hc =
     (case hc of
        None \<Rightarrow> Some interval
      | Some h \<Rightarrow>
          (let start = (case hardBound tz day (noEarlyThan h) of
                          Some minStart \<Rightarrow>
                            if i_start interval < minStart then minStart else i_start interval
                        | None \<Rightarrow> i_start interval);
               end' = (case hardBound tz day (noLaterThan h) of
                         Some maxEnd \<Rightarrow>
                           if i_end interval > maxEnd then maxEnd else i_end interval
                       | None \<Rightarrow> i_end interval)
           in if start \<ge> end' then None else Some \<lparr>i_start = start, i_end = end'\<rparr>))"

text \<open>
  The two exclusion loops (time off, then sessions): the interval is dropped when the
  overlap with some entry starts at or before it and ends at or after it.
\<close>

fun fullyBlocked :: "interval \<Rightarrow> interval list \<Rightarrow> bool" where
  "fullyBlocked interval [] = False"
| "fullyBlocked interval (off # offs) =
     (case overlapInterval interval off of
        Some offInt \<Rightarrow>
          if i_start offInt \<le> i_start interval \<and> i_end offInt \<ge> i_end interval then True
          else fullyBlocked interval offs
      | None \<Rightarrow> fullyBlocked interval offs)"

definition sessionInterval :: "session \<Rightarrow> interval" where
  "sessionInterval s = \<lparr>i_start = s_start s, i_end = s_end s\<rparr>"

record slot =
  slot_therapist :: string
  slot_start :: instant
  slot_end :: instant

text \<open>What \<^verbatim>\<open>findSlots\<close> holds while it loops.\<close>

record findContext =
  fc_tz :: int
  fc_therapistId :: string
  fc_therapist :: therapistDoc
  fc_pref :: "preferences option"
  fc_sessions :: "session list"
  fc_sessionMinutes :: real

text \<open>
  The slicing loop:
  \<^verbatim>\<open>while (cur.getTime() + sessionMinutes * 60000 <= interval.end.getTime())\<close>, a slot
  from \<^verbatim>\<open>cur\<close> to \<^verbatim>\<open>new Date(cur.getTime() + sessionMinutes * 60000)\<close>, then
  \<^verbatim>\<open>cur.setMinutes(cur.getMinutes() + sessionMinutes)\<close>.
\<close>

partial_function (option) sliceLoop ::
  "int \<Rightarrow> string \<Rightarrow> real \<Rightarrow> instant \<Rightarrow> instant \<Rightarrow> slot list \<Rightarrow> slot list option" where
  "sliceLoop tz therapistId sessionMinutes cur end' slots =
     (if real_of_int cur + sessionMinutes * 60000 \<le> real_of_int end'
      then sliceLoop tz therapistId sessionMinutes
             (setMinutes tz cur (real_of_int (getMinutes tz cur) + sessionMinutes)) end'
             (slots @ [\<lparr>slot_therapist = therapistId, slot_start = cur,
                         slot_end = js_trunc (real_of_int cur + sessionMinutes * 60000)\<rparr>])
      else Some slots)"

text \<open>
  The body of \<^verbatim>\<open>for (const tr of timeRanges)\<close>. When one of the four clock times is an
  Invalid Date, every later comparison with it is false: no exclusion applies and the
  slicing loop does not run.
\<close>

definition timeRangeBody ::
  "findContext \<Rightarrow> instant \<Rightarrow> timeBlock \<Rightarrow> timeRange \<Rightarrow> slot list \<Rightarrow> slot list option" where
  "timeRangeBody fc day block tr slots =
     (case (clockOn (fc_tz fc) day (b_startTime block), clockOn (fc_tz fc) day (b_endTime block),
            clockOn (fc_tz fc) day (tr_startTime tr), clockOn (fc_tz fc) day (tr_endTime tr)) of
        (Some blockStart, Some blockEnd, Some prefStart, Some prefEnd) \<Rightarrow>
          (case overlapInterval \<lparr>i_start = blockStart, i_end = blockEnd\<rparr>
                                \<lparr>i_start = prefStart, i_end = prefEnd\<rparr> of
             None \<Rightarrow> Some slots
           | Some interval \<Rightarrow>
               (case applyHardConstraints (fc_tz fc) day interval
                       (case fc_pref fc of None \<Rightarrow> None | Some p \<Rightarrow> p_hardConstraints p) of
                  None \<Rightarrow> Some slots
                | Some interval' \<Rightarrow>
                    if fullyBlocked interval' (timeOff (fc_therapist fc)) then Some slots
                    else if fullyBlocked interval' (map sessionInterval (fc_sessions fc))
                      then Some slots
                    else sliceLoop (fc_tz fc) (fc_therapistId fc) (fc_sessionMinutes fc)
                           (i_start interval') (i_end interval') slots))
      | _ \<Rightarrow> Some slots)"

fun timeRangeLoop ::
  "findContext \<Rightarrow> instant \<Rightarrow> timeBlock \<Rightarrow> timeRange list \<Rightarrow> slot list \<Rightarrow> slot list option" where
  "timeRangeLoop fc day block [] slots = Some slots"
| "timeRangeLoop fc day block (tr # trs) slots =
     (case timeRangeBody fc day block tr slots of
        None \<Rightarrow> None
      | Some slots' \<Rightarrow> timeRangeLoop fc day block trs slots')"

text \<open>The preferred time ranges, or the block's own times when the client gave none.\<close>

definition timeRangesFor :: "findContext \<Rightarrow> timeBlock \<Rightarrow> timeRange list" where
  "timeRangesFor fc block =
     (case fc_pref fc of
        None \<Rightarrow> [\<lparr>tr_startTime = b_startTime block, tr_endTime = b_endTime block\<rparr>]
      | Some p \<Rightarrow>
          if length (preferredTimeRanges p) > 0 then preferredTimeRanges p
          else [\<lparr>tr_startTime = b_startTime block, tr_endTime = b_endTime block\<rparr>])"

fun blockLoop ::
  "findContext \<Rightarrow> instant \<Rightarrow> timeBlock list \<Rightarrow> slot list \<Rightarrow> slot list option" where
  "blockLoop fc day [] slots = Some slots"
| "blockLoop fc day (block # blocks) slots =
     (case timeRangeLoop fc day block (timeRangesFor fc block) slots of
        None \<Rightarrow> None
      | Some slots' \<Rightarrow> blockLoop fc day blocks slots')"

text \<open>The client's preferred weekdays: a day outside a non-empty list is skipped.\<close>

definition daySkipped :: "findContext \<Rightarrow> int \<Rightarrow> bool" where
  "daySkipped fc dow =
     (case fc_pref fc of
        None \<Rightarrow> False
      | Some p \<Rightarrow> length (preferredDaysOfWeek p) > 0 \<and> dow \<notin> set (preferredDaysOfWeek p))"

definition dayBody :: "findContext \<Rightarrow> instant \<Rightarrow> slot list \<Rightarrow> slot list option" where
  "dayBody fc day slots =
     (let dow = getDay (fc_tz fc) day
      in if daySkipped fc dow then Some slots
         else blockLoop fc day
                (filter (\<lambda>b. b_dayOfWeek b = dow) (weeklyAvailability (fc_therapist fc))) slots)"

text \<open>\<^verbatim>\<open>while (day < to)\<close>, with \<^verbatim>\<open>day.setDate(day.getDate() + 1)\<close> at the end of each round.\<close>

function dayLoop :: "findContext \<Rightarrow> instant \<Rightarrow> instant \<Rightarrow> slot list \<Rightarrow> slot list option" where
  "dayLoop fc day to slots =
     (if day < to
      then (case dayBody fc day slots of
              None \<Rightarrow> None
            | Some slots' \<Rightarrow> dayLoop fc (day + 86400000) to slots')
      else Some slots)"
  by pat_completeness auto
termination
  by (relation "measure (\<lambda>(fc, day, to, slots). nat (to - day))") auto

datatype findError = ClientOrTherapistNotFound

text \<open>
  \<^verbatim>\<open>findSlots\<close>: the error thrown, or the slots. The outer \<open>option\<close> is \<open>None\<close> when the
  function does not return.
\<close>

definition sessionsInRange :: "db \<Rightarrow> string \<Rightarrow> instant \<Rightarrow> instant \<Rightarrow> session list" where
  "sessionsInRange d therapistId from to =
     filter (\<lambda>s. therapist s = therapistId \<and> s_status s = scheduled
                  \<and> s_start s < to \<and> s_end s > from) (sessions d)"

definition findSlots ::
  "db \<Rightarrow> int \<Rightarrow> string \<Rightarrow> string \<Rightarrow> instant \<Rightarrow> instant \<Rightarrow> real
     \<Rightarrow> (findError + slot list) option" where
  "findSlots d tz clientId therapistId from to sessionMinutes =
     (case (find (\<lambda>c. c_id c = clientId) (clients d),
            find (\<lambda>t. t_id t = therapistId) (therapists d)) of
        (Some cl, Some th) \<Rightarrow>
          (let fc = \<lparr>fc_tz = tz, fc_therapistId = therapistId, fc_therapist = th,
                     fc_pref = c_preferences cl,
                     fc_sessions = sessionsInRange d therapistId from to,
                     fc_sessionMinutes = sessionMinutes\<rparr>
           in map_option Inr (dayLoop fc from to []))
      | _ \<Rightarrow> Some (Inl ClientOrTherapistNotFound))"

section \<open>What a produced slot is known to satisfy\<close>





section \<open>The checks of a booking, one by one\<close>

text \<open>
  Each check of \<^verbatim>\<open>bookSession\<close> as a condition on the store and the request, paired with
  the rejection sent when it fails, in the order the handler makes them.
\<close>

fun firstFailure :: "(bool \<times> reject) list \<Rightarrow> reject option" where
  "firstFailure [] = None"
| "firstFailure ((ok, e) # rest) = (if ok then firstFailure rest else Some e)"

definition clientIdResolved :: "bookRequest \<Rightarrow> bool" where
  "clientIdResolved req = (case b_clientId req of None \<Rightarrow> False | Some c \<Rightarrow> c \<noteq> [])"

definition therapistIdGiven :: "bookRequest \<Rightarrow> bool" where
  "therapistIdGiven req = (case b_therapistId req of None \<Rightarrow> False | Some t \<Rightarrow> trim t \<noteq> [])"

definition therapistIdWellFormed :: "bookRequest \<Rightarrow> bool" where
  "therapistIdWellFormed req =
     (case b_therapistId req of None \<Rightarrow> False | Some t \<Rightarrow> isValidObjectIdString (trim t))"

definition endAfterStart :: "bookRequest \<Rightarrow> bool" where
  "endAfterStart req =
     (case (b_startAt req, b_endAt req) of (Parsed s, Parsed e) \<Rightarrow> s < e | _ \<Rightarrow> False)"

definition therapistExists :: "db \<Rightarrow> bookRequest \<Rightarrow> bool" where
  "therapistExists d req =
     (case b_therapistId req of
        None \<Rightarrow> False
      | Some t \<Rightarrow> (\<exists>x \<in> set (therapists d). t_id x = toObjectId (trim t)))"

definition clientExists :: "db \<Rightarrow> bookRequest \<Rightarrow> bool" where
  "clientExists d req =
     (case b_clientId req of None \<Rightarrow> False | Some c \<Rightarrow> (\<exists>x \<in> set (clients d). c_id x = c))"

definition withinAvailability :: "db \<Rightarrow> bookRequest \<Rightarrow> bool" where
  "withinAvailability d req =
     (case (b_therapistId req, b_startAt req, b_endAt req) of
        (Some t, Parsed s, Parsed e) \<Rightarrow> isWithinAvailability d (toObjectId (trim t)) s e
      | _ \<Rightarrow> False)"

definition noTherapistConflict :: "db \<Rightarrow> bookRequest \<Rightarrow> bool" where
  "noTherapistConflict d req =
     (case (b_therapistId req, b_startAt req, b_endAt req) of
        (Some t, Parsed s, Parsed e) \<Rightarrow>
          \<not> (\<exists>x \<in> set (sessions d). therapist x = toObjectId (trim t)
                \<and> s_status x \<noteq> cancelled \<and> s_start x < e \<and> s_end x > s)
      | _ \<Rightarrow> False)"

definition noClientConflict :: "db \<Rightarrow> bookRequest \<Rightarrow> bool" where
  "noClientConflict d req =
     (case (b_clientId req, b_startAt req, b_endAt req) of
        (Some c, Parsed s, Parsed e) \<Rightarrow>
          \<not> (\<exists>x \<in> set (sessions d). client x = c
                \<and> s_status x \<noteq> cancelled \<and> s_start x < e \<and> s_end x > s)
      | _ \<Rightarrow> False)"

definition bookChecksInOrder :: "db \<Rightarrow> bookRequest \<Rightarrow> (bool \<times> reject) list" where
  "bookChecksInOrder d req =
     [(clientIdResolved req, NotAuthorizedAsClient),
      (therapistIdGiven req, TherapistIdRequired),
      (therapistIdWellFormed req, TherapistIdMalformed),
      (b_startAt req \<noteq> Absent, StartAtRequired),
      (b_startAt req \<noteq> Unparsable, StartAtInvalid),
      (b_endAt req \<noteq> Absent, EndAtRequired),
      (b_endAt req \<noteq> Unparsable, EndAtInvalid),
      (endAfterStart req, EndNotAfterStart),
      (therapistExists d req, TherapistNotFound),
      (clientExists d req, ClientProfileNotFound),
      (withinAvailability d req, NotInAvailability),
      (noTherapistConflict d req, SlotAlreadyBooked),
      (noClientConflict d req, ClientAlreadyBooked)]"

text \<open>
  A conflict for a proposed interval: a stored session, other than the excluded one, that
  is not cancelled, has the same therapist or the same client, and meets the interval
  under the overlap test.
\<close>

definition conflictExists ::
  "db \<Rightarrow> nat option \<Rightarrow> string \<Rightarrow> string \<Rightarrow> instant \<Rightarrow> instant \<Rightarrow> bool" where
  "conflictExists d excl t c s e =
     (\<exists>x \<in> set (sessions d).
        notExcluded excl x \<and> s_status x \<noteq> cancelled \<and> (therapist x = t \<or> client x = c)
        \<and> s_start x < e \<and> s_end x > s)"



section \<open>A small store used in the examples\<close>

text \<open>
  One therapist, available on Mondays from 09:00 to 12:00 (UTC), and two clients. The
  instants are those of Monday 2026-02-09: 1770627600000 is 09:00 UTC, and half an hour
  is 1800000 ms.
\<close>

definition exTherapist :: string where
  "exTherapist = ''aaaaaaaaaaaaaaaaaaaaaaaa''"

definition exClient :: string where
  "exClient = ''cccccccccccccccccccccccc''"

definition exClient2 :: string where
  "exClient2 = ''dddddddddddddddddddddddd''"

definition exDb :: db where
  "exDb = \<lparr>sessions = [],
           availabilities =
             [\<lparr>a_therapist = exTherapist, a_dayOfWeek = ''MONDAY'',
                a_startTime = ''09:00'', a_endTime = ''12:00''\<rparr>],
           therapists =
             [\<lparr>t_id = exTherapist,
                weeklyAvailability =
                  [\<lparr>b_dayOfWeek = 1, b_startTime = ''09:00'', b_endTime = ''12:00''\<rparr>],
                timeOff = []\<rparr>],
           clients =
             [\<lparr>c_id = exClient, c_preferences = None\<rparr>,
              \<lparr>c_id = exClient2, c_preferences = None\<rparr>]\<rparr>"

definition exBook :: "string \<Rightarrow> instant \<Rightarrow> instant \<Rightarrow> bookRequest" where
  "exBook c s e = \<lparr>b_clientId = Some c, b_therapistId = Some exTherapist,
                    b_startAt = Parsed s, b_endAt = Parsed e, b_notes = None\<rparr>"

definition exAdmin :: actorIds where
  "exAdmin = \<lparr>a_role = Some admin, a_clientId = None, a_therapistId = None\<rparr>"

definition exMove :: "nat \<Rightarrow> instant \<Rightarrow> instant \<Rightarrow> rescheduleRequest" where
  "exMove i s e = \<lparr>r_actor = exAdmin, r_id = i, r_startAt = Parsed s, r_endAt = Parsed e\<rparr>"

text \<open>The session that booking 09:00 to 09:30 for the first client creates.\<close>

definition exSession :: session where
  "exSession = \<lparr>sid = 1, therapist = exTherapist, client = exClient,
                 s_start = 1770627600000, s_end = 1770629400000,
                 s_status = scheduled, s_notes = None\<rparr>"

text \<open>A booking for a therapist that does not exist, with the two instants swapped.\<close>

definition exBadBook :: bookRequest where
  "exBadBook = \<lparr>b_clientId = Some exClient, b_therapistId = Some ''bbbbbbbbbbbbbbbbbbbbbbbb'',
                b_startAt = Parsed 1770629400000, b_endAt = Parsed 1770627600000,
                b_notes = None\<rparr>"

text \<open>The same therapist id with the instants in order.\<close>

definition exUnknownBook :: bookRequest where
  "exUnknownBook = exBadBook\<lparr>b_startAt := Parsed 1770627600000,
                              b_endAt := Parsed 1770629400000\<rparr>"

text \<open>The example store with the whole Monday entered as time off of the therapist.\<close>

definition exDbOff :: db where
  "exDbOff = exDb\<lparr>therapists :=
     [\<lparr>t_id = exTherapist,
        weeklyAvailability =
          [\<lparr>b_dayOfWeek = 1, b_startTime = ''09:00'', b_endTime = ''12:00''\<rparr>],
        timeOff = [\<lparr>i_start = 1770595200000, i_end = 1770681600000\<rparr>]\<rparr>]\<rparr>"

section \<open>Properties\<close>

lemmas js_defs = trim_def isWhite_def isDigit_def digitsVal_def digitVal_def parseInt_def
  Number_def timeToMinutes_def num_lt_def num_le_def

lemmas date_defs = getUTCDay_def getUTCHours_def getUTCMinutes_def dateToDayOfWeekUTC_def
  DAYS_ENUM_def digitChar_def pad2_def dateToHHmmUTC_def sliceMinutes_def

lemmas ex_defs = exDb_def exTherapist_def exClient_def exClient2_def exBook_def exAdmin_def
  exMove_def exSession_def exBadBook_def exUnknownBook_def exDbOff_def

lemmas check_defs = clientIdResolved_def therapistIdGiven_def therapistIdWellFormed_def
  endAfterStart_def therapistExists_def clientExists_def withinAvailability_def
  noTherapistConflict_def noClientConflict_def bookChecksInOrder_def

lemmas slot_defs = getDay_def getMinutes_def setHours_def setMinutes_def clockOn_def
  hardBound_def applyHardConstraints_def sessionInterval_def timeRangeBody_def timeRangesFor_def
  daySkipped_def dayBody_def findSlots_def sessionsInRange_def overlapInterval_def js_trunc_def

lemmas id_defs = isValidObjectIdString_def isHex_def toObjectId_def lowerHex_def

lemmas query_defs = findTherapistConflict_def findClientConflict_def findSessionById_def
  notExcluded_def overlapQuery_def duplicateKey_def newId_def createSession_def
  saveSession_def

subsection \<open>The overlap test\<close>

text \<open>
  C8. The conflict test is \<open>a.start < b.end \<and> a.end > b.start\<close>, in the session queries
  and, on minutes of the day, in \<^verbatim>\<open>timesOverlap\<close>. It is symmetric in its two
  intervals. An interval that starts where another ends does not conflict with it, as
  [0,30) and [30,60). \<^verbatim>\<open>overlapInterval\<close> gives no interval exactly when the larger start
  is at or after the smaller end.
\<close>

theorem overlap_test:
  "(overlapQuery s e x \<longleftrightarrow> s_start x < e \<and> s_end x > s)
   \<and> (overlaps a b \<longleftrightarrow> s_start a < s_end b \<and> s_end a > s_start b)
   \<and> (timesOverlap s1 e1 s2 e2 \<longleftrightarrow>
        num_lt (timeToMinutes s1) (timeToMinutes e2) \<and> num_lt (timeToMinutes s2) (timeToMinutes e1))
   \<and> overlaps a b = overlaps b a
   \<and> timesOverlap s1 e1 s2 e2 = timesOverlap s2 e2 s1 e1
   \<and> \<not> overlaps (a\<lparr>s_end := t\<rparr>) (b\<lparr>s_start := t\<rparr>)
   \<and> \<not> overlaps (a\<lparr>s_start := 0, s_end := 30\<rparr>) (b\<lparr>s_start := 30, s_end := 60\<rparr>)
   \<and> (overlapInterval i j = None \<longleftrightarrow>
        max (i_start i) (i_start j) \<ge> min (i_end i) (i_end j))"
  by (auto simp: overlapQuery_def overlaps_def timesOverlap_def overlapInterval_def Let_def)

subsection \<open>Invariant preservation\<close>














lemma ex_within_0900:
  "isWithinAvailability (exDb\<lparr>sessions := ss\<rparr>) exTherapist 1770627600000 1770629400000"
  by (simp add: isWithinAvailability_def ex_defs js_defs date_defs Let_def)

lemma ex_within_1000:
  "isWithinAvailability (exDb\<lparr>sessions := ss\<rparr>) exTherapist 1770631200000 1770633000000"
  by (simp add: isWithinAvailability_def ex_defs js_defs date_defs Let_def)


lemma ex_move_1000:
  "rescheduleSession (exDb\<lparr>sessions := [exSession]\<rparr>) (exMove 1 1770631200000 1770633000000)
     = (Inr (exSession\<lparr>s_start := 1770631200000, s_end := 1770633000000\<rparr>),
        exDb\<lparr>sessions := [exSession\<lparr>s_start := 1770631200000, s_end := 1770633000000\<rparr>]\<rparr>)"
  using ex_within_1000[of "[exSession]"]
  by (simp add: rescheduleSession_def rescheduleValidate_def canAccessSessionStrict_def
      query_defs ex_defs Let_def)


subsection \<open>Conflict rejection\<close>

lemma bookValidate_ordered: "bookValidate d req = Inr (c, t, s, e) \<Longrightarrow> s < e"
  unfolding bookValidate_def bookPrecheck_def
  by (auto simp: Let_def split: option.splits if_splits body_time.splits sum.splits)

lemma rescheduleValidate_facts:
  "rescheduleValidate d req = Inr (ex, ns, ne)
   \<Longrightarrow> ns < ne \<and> s_status ex = scheduled \<and> ex \<in> set (sessions d)"
  unfolding rescheduleValidate_def findSessionById_def
  by (auto simp: Let_def find_Some_iff split: option.splits if_splits body_time.splits)

lemma conflict_lookup_iff:
  "(findTherapistConflict d excl t s e \<noteq> None \<or> findClientConflict d excl c s e \<noteq> None)
    \<longleftrightarrow> conflictExists d excl t c s e"
  unfolding findTherapistConflict_def findClientConflict_def conflictExists_def overlapQuery_def
  by (auto simp: find_None_iff)

text \<open>Where the lookups find nothing, the unique index cannot reject the write.\<close>

lemma no_conflict_no_duplicate:
  assumes "\<not> conflictExists d excl t c s e" "s < e"
    "therapist doc = t" "s_start doc = s" "s_end doc = e"
    "\<forall>x\<in>set (sessions d). sid x \<noteq> sid doc \<longrightarrow> notExcluded excl x"
  shows "\<not> duplicateKey (sessions d) doc"
  using assms unfolding duplicateKey_def conflictExists_def
  by (fastforce simp: list_ex_iff)

lemma book_conflict:
  assumes "bookValidate d req = Inr (c, t, s, e)"
  shows "((\<exists>r. fst (bookSession d req) = Inl r \<and> httpStatus r = 409)
            \<longleftrightarrow> conflictExists d None t c s e)
     \<and> (\<not> conflictExists d None t c s e \<longrightarrow> (\<exists>new. fst (bookSession d req) = Inr new))"
proof (cases "conflictExists d None t c s e")
  case True
  then have "findTherapistConflict d None t s e \<noteq> None
             \<or> findClientConflict d None c s e \<noteq> None"
    using conflict_lookup_iff by blast
  then have "fst (bookSession d req) = Inl SlotAlreadyBooked
             \<or> fst (bookSession d req) = Inl ClientAlreadyBooked"
    using assms by (auto simp: bookSession_def bookConflictChecks_def)
  then show ?thesis using True by auto
next
  case False
  then have n: "findTherapistConflict d None t s e = None"
    "findClientConflict d None c s e = None"
    using conflict_lookup_iff by blast+
  have "\<not> duplicateKey (sessions d)
          \<lparr>sid = newId (sessions d), therapist = t, client = c, s_start = s, s_end = e,
           s_status = scheduled, s_notes = b_notes req\<rparr>"
    using no_conflict_no_duplicate[OF False bookValidate_ordered[OF assms]]
    by (simp add: notExcluded_def)
  then have "\<exists>new. fst (bookSession d req) = Inr new"
    using assms n
    by (simp add: bookSession_def bookConflictChecks_def bookInsert_def createSession_def
        Let_def)
  then show ?thesis using False by auto
qed

lemma resched_conflict:
  assumes "rescheduleValidate d req = Inr (ex, ns, ne)"
  shows "((\<exists>r. fst (rescheduleSession d req) = Inl r \<and> httpStatus r = 409)
            \<longleftrightarrow> conflictExists d (Some (sid ex)) (therapist ex) (client ex) ns ne)
     \<and> (\<not> conflictExists d (Some (sid ex)) (therapist ex) (client ex) ns ne
          \<longrightarrow> (\<exists>new. fst (rescheduleSession d req) = Inr new))"
proof (cases "conflictExists d (Some (sid ex)) (therapist ex) (client ex) ns ne")
  case True
  then have "findTherapistConflict d (Some (sid ex)) (therapist ex) ns ne \<noteq> None
             \<or> findClientConflict d (Some (sid ex)) (client ex) ns ne \<noteq> None"
    using conflict_lookup_iff by blast
  then have "fst (rescheduleSession d req) = Inl TherapistBusy
             \<or> fst (rescheduleSession d req) = Inl ClientAlreadyBooked"
    using assms by (auto simp: rescheduleSession_def Let_def)
  then show ?thesis using True by auto
next
  case False
  then have n: "findTherapistConflict d (Some (sid ex)) (therapist ex) ns ne = None"
    "findClientConflict d (Some (sid ex)) (client ex) ns ne = None"
    using conflict_lookup_iff by blast+
  have "\<not> duplicateKey (sessions d) (ex\<lparr>s_start := ns, s_end := ne\<rparr>)"
    using no_conflict_no_duplicate[OF False, of "ex\<lparr>s_start := ns, s_end := ne\<rparr>"]
      rescheduleValidate_facts[OF assms]
    by (simp add: notExcluded_def)
  then have "\<exists>new. fst (rescheduleSession d req) = Inr new"
    using assms n by (simp add: rescheduleSession_def saveSession_def Let_def)
  then show ?thesis using False by auto
qed


lemma ex_within_0915:
  "isWithinAvailability (exDb\<lparr>sessions := ss\<rparr>) exTherapist 1770628500000 1770630300000"
  by (simp add: isWithinAvailability_def ex_defs js_defs date_defs Let_def)




subsection \<open>A rejected reschedule changes nothing\<close>

text \<open>
  C7. When \<^verbatim>\<open>rescheduleSession\<close> rejects the request, for whichever reason (a missing,
  invalid or inverted time, an unknown session, a session that is not scheduled, an
  actor without access, a time outside availability, a conflict, a failed write), the
  store after the call is the store before it.
\<close>

theorem rejected_reschedule_unchanged:
  "fst (rescheduleSession d req) = Inl e \<Longrightarrow> snd (rescheduleSession d req) = d"
  unfolding rescheduleSession_def
  by (auto simp: Let_def split: sum.splits prod.splits option.splits if_splits)

lemma ex_move_conflict:
  "fst (rescheduleSession (exDb\<lparr>sessions := [exSession, exSession\<lparr>sid := 2,
          s_start := 1770631200000, s_end := 1770633000000\<rparr>]\<rparr>)
        (exMove 2 1770628500000 1770630300000)) = Inl TherapistBusy"
  using ex_within_0915[of "[exSession, exSession\<lparr>sid := 2,
          s_start := 1770631200000, s_end := 1770633000000\<rparr>]"]
  by (simp add: rescheduleSession_def rescheduleValidate_def canAccessSessionStrict_def
      query_defs ex_defs Let_def)

theorem rejected_reschedule_unchanged_witness:
  "fst (rescheduleSession (exDb\<lparr>sessions := [exSession, exSession\<lparr>sid := 2,
          s_start := 1770631200000, s_end := 1770633000000\<rparr>]\<rparr>)
        (exMove 2 1770628500000 1770630300000)) = Inl TherapistBusy
   \<and> snd (rescheduleSession (exDb\<lparr>sessions := [exSession, exSession\<lparr>sid := 2,
          s_start := 1770631200000, s_end := 1770633000000\<rparr>]\<rparr>)
        (exMove 2 1770628500000 1770630300000))
     = exDb\<lparr>sessions := [exSession, exSession\<lparr>sid := 2,
          s_start := 1770631200000, s_end := 1770633000000\<rparr>]\<rparr>"
  using rejected_reschedule_unchanged[OF ex_move_conflict] ex_move_conflict by simp

subsection \<open>The order of the booking checks\<close>

lemma book_order_fail:
  "firstFailure (bookChecksInOrder d req) = Some e \<Longrightarrow> bookSession d req = (Inl e, d)"
  unfolding bookSession_def bookValidate_def bookPrecheck_def bookConflictChecks_def check_defs
    findTherapistConflict_def findClientConflict_def notExcluded_def overlapQuery_def
  by (auto simp: Let_def find_None_iff split: option.splits body_time.splits if_splits)

lemma trim_Nil: "trim [] = []"
  by (simp add: trim_def)

lemma book_order_pass:
  assumes "firstFailure (bookChecksInOrder d req) = None"
  shows "\<exists>s. fst (bookSession d req) = Inr s"
proof -
  from assms have all: "clientIdResolved req" "therapistIdGiven req" "therapistIdWellFormed req"
    "b_startAt req \<noteq> Absent" "b_startAt req \<noteq> Unparsable" "b_endAt req \<noteq> Absent"
    "b_endAt req \<noteq> Unparsable" "endAfterStart req" "therapistExists d req" "clientExists d req"
    "withinAvailability d req" "noTherapistConflict d req" "noClientConflict d req"
    unfolding bookChecksInOrder_def by (simp_all split: if_splits)
  from all(1) obtain c where c: "b_clientId req = Some c" "c \<noteq> []"
    unfolding clientIdResolved_def by (auto split: option.splits)
  from all(2) obtain t0 where t0: "b_therapistId req = Some t0" "trim t0 \<noteq> []"
    unfolding therapistIdGiven_def by (auto split: option.splits)
  from all(4,5) obtain s where s: "b_startAt req = Parsed s" by (cases "b_startAt req") auto
  from all(6,7) obtain e where e: "b_endAt req = Parsed e" by (cases "b_endAt req") auto
  from all(3,8,9,10,11) c t0 s e
  have v: "bookValidate d req = Inr (c, toObjectId (trim t0), s, e)"
    unfolding bookValidate_def bookPrecheck_def therapistIdWellFormed_def endAfterStart_def
      therapistExists_def clientExists_def withinAvailability_def
    by (auto simp: Let_def find_None_iff)
  from all(12,13) c t0 s e have "\<not> conflictExists d None (toObjectId (trim t0)) c s e"
    unfolding noTherapistConflict_def noClientConflict_def conflictExists_def
    by auto
  with book_conflict[OF v] show ?thesis by blast
qed

lemma inverted_first:
  "clientIdResolved req \<Longrightarrow> therapistIdWellFormed req \<Longrightarrow> b_startAt req = Parsed s \<Longrightarrow> b_endAt req = Parsed e \<Longrightarrow> e \<le> s
   \<Longrightarrow> bookSession d req = (Inl EndNotAfterStart, d)"
  unfolding bookSession_def bookValidate_def bookPrecheck_def check_defs isValidObjectIdString_def
  by (auto simp: Let_def trim_Nil split: option.splits)

text \<open>
  C5, as the handler has it. \<^verbatim>\<open>bookSession\<close> makes its checks in this order and answers
  with the rejection of the first that fails: a client id for the actor; a therapist id
  that is present and well formed; a start and an end that are present and valid; end
  after start; the therapist exists; the client profile exists; the interval is within
  availability; no therapist conflict; no client conflict. When none fails a session is
  created. A request with well-formed fields and an end at or before its start is
  answered with the invalid-time rejection whether or not its therapist exists.
\<close>

theorem book_check_order:
  "(firstFailure (bookChecksInOrder d req) = Some e \<longrightarrow> bookSession d req = (Inl e, d))
   \<and> (firstFailure (bookChecksInOrder d req) = None
        \<longrightarrow> (\<exists>created. fst (bookSession d req) = Inr created))
   \<and> (clientIdResolved req \<and> therapistIdWellFormed req \<and> b_startAt req = Parsed s
        \<and> b_endAt req = Parsed e' \<and> e' \<le> s
        \<longrightarrow> bookSession d req = (Inl EndNotAfterStart, d))"
  using book_order_fail[of d req e] book_order_pass[of d req] inverted_first[of req s e' d]
  by blast

lemma ex_unknown_first:
  "firstFailure (bookChecksInOrder exDb exUnknownBook) = Some TherapistNotFound"
  by (simp add: check_defs id_defs ex_defs js_defs)

lemma ex_good_first:
  "firstFailure (bookChecksInOrder exDb (exBook exClient 1770627600000 1770629400000)) = None"
  using ex_within_0900[of "[]"]
  by (simp add: check_defs id_defs ex_defs js_defs)

theorem book_check_order_witness:
  "bookSession exDb exUnknownBook = (Inl TherapistNotFound, exDb)
   \<and> (\<exists>created. fst (bookSession exDb (exBook exClient 1770627600000 1770629400000))
                   = Inr created)"
  using book_check_order[of exDb exUnknownBook TherapistNotFound]
    book_check_order[of exDb "exBook exClient 1770627600000 1770629400000"]
    ex_unknown_first ex_good_first
  by simp

text \<open>
  The order stated in C5 puts the therapist lookup before the comparison of the two
  instants. A request that names a therapist who does not exist and whose end is before
  its start is answered with 400 (end must be after start), not with 404.
\<close>

theorem book_check_order_counterexample:
  "\<not> therapistExists exDb exBadBook
   \<and> \<not> endAfterStart exBadBook
   \<and> bookSession exDb exBadBook = (Inl EndNotAfterStart, exDb)
   \<and> httpStatus EndNotAfterStart \<noteq> 404"
  by (simp add: check_defs bookSession_def bookValidate_def bookPrecheck_def
      id_defs ex_defs js_defs Let_def)

subsection \<open>Reschedule: check against apply\<close>

lemma check_allows_apply:
  assumes "checkRescheduleSession d now req = None"
  shows "\<exists>moved. fst (rescheduleSession d req) = Inr moved"
proof -
  from assms obtain ex ns ne where v: "rescheduleValidate d req = Inr (ex, ns, ne)"
    and n: "findTherapistConflict d (Some (sid ex)) (therapist ex) ns ne = None"
           "findClientConflict d (Some (sid ex)) (client ex) ns ne = None"
    unfolding checkRescheduleSession_def rescheduleValidate_def
    by (auto simp: Let_def split: body_time.splits option.splits if_splits)
  from n have "\<not> conflictExists d (Some (sid ex)) (therapist ex) (client ex) ns ne"
    using conflict_lookup_iff by blast
  with resched_conflict[OF v] show ?thesis by blast
qed

lemma apply_allows_check:
  assumes "fst (rescheduleSession d req) = Inr moved"
    and "r_startAt req = Parsed ns" and "now < ns"
  shows "checkRescheduleSession d now req = None"
  using assms
  unfolding checkRescheduleSession_def rescheduleSession_def rescheduleValidate_def
  by (auto simp: Let_def split: body_time.splits option.splits if_splits)

text \<open>
  C4 at a failing input. The clock stands at 1780000000000, after the Monday of the
  example. The check refuses to move the stored session to 10:00 of that Monday, with
  reason PAST; \<^verbatim>\<open>rescheduleSession\<close> has no such test and moves the session.
\<close>

theorem reschedule_past_divergence:
  "checkRescheduleSession (exDb\<lparr>sessions := [exSession]\<rparr>) 1780000000000
       (exMove 1 1770631200000 1770633000000) = Some PAST
   \<and> rescheduleSession (exDb\<lparr>sessions := [exSession]\<rparr>)
       (exMove 1 1770631200000 1770633000000)
     = (Inr (exSession\<lparr>s_start := 1770631200000, s_end := 1770633000000\<rparr>),
        exDb\<lparr>sessions := [exSession\<lparr>s_start := 1770631200000, s_end := 1770633000000\<rparr>]\<rparr>)"
  using ex_move_1000
  by (simp add: checkRescheduleSession_def exMove_def)

subsection \<open>Two bookings in flight\<close>

text \<open>
  C9 at a failing schedule. Outside production \<^verbatim>\<open>bookSession\<close> awaits the two lookups
  and then the insert, with no transaction around them. Two requests for the same
  therapist, 09:00 to 10:00 for one client and 09:00 to 09:30 for another, both pass
  their checks and lookups against the empty collection before either inserts. Both
  inserts then succeed (the keys of the unique index differ in the end instant), and
  the collection holds two overlapping scheduled sessions of one therapist.
\<close>

theorem concurrent_double_booking:
  "bookValidate exDb (exBook exClient 1770627600000 1770631200000)
     = Inr (exClient, exTherapist, 1770627600000, 1770631200000)
   \<and> bookValidate exDb (exBook exClient2 1770627600000 1770629400000)
     = Inr (exClient2, exTherapist, 1770627600000, 1770629400000)
   \<and> bookConflictChecks exDb exClient exTherapist 1770627600000 1770631200000 = None
   \<and> bookConflictChecks exDb exClient2 exTherapist 1770627600000 1770629400000 = None
   \<and> bookInsert exDb exClient exTherapist 1770627600000 1770631200000 None
     = (Inr (exSession\<lparr>s_end := 1770631200000\<rparr>),
        exDb\<lparr>sessions := [exSession\<lparr>s_end := 1770631200000\<rparr>]\<rparr>)
   \<and> bookInsert (exDb\<lparr>sessions := [exSession\<lparr>s_end := 1770631200000\<rparr>]\<rparr>)
        exClient2 exTherapist 1770627600000 1770629400000 None
     = (Inr (exSession\<lparr>sid := 2, client := exClient2\<rparr>),
        exDb\<lparr>sessions := [exSession\<lparr>s_end := 1770631200000\<rparr>,
                            exSession\<lparr>sid := 2, client := exClient2\<rparr>]\<rparr>)
   \<and> \<not> coreInvariant (exDb\<lparr>sessions := [exSession\<lparr>s_end := 1770631200000\<rparr>,
                            exSession\<lparr>sid := 2, client := exClient2\<rparr>]\<rparr>)"
proof -
  have w1: "isWithinAvailability exDb exTherapist 1770627600000 1770631200000"
    by (simp add: isWithinAvailability_def ex_defs js_defs date_defs Let_def)
  have w2: "isWithinAvailability exDb exTherapist 1770627600000 1770629400000"
    by (simp add: isWithinAvailability_def ex_defs js_defs date_defs Let_def)
  have v1: "bookValidate exDb (exBook exClient 1770627600000 1770631200000)
     = Inr (exClient, exTherapist, 1770627600000, 1770631200000)"
    using w1 by (simp add: bookValidate_def bookPrecheck_def id_defs ex_defs js_defs Let_def)
  have v2: "bookValidate exDb (exBook exClient2 1770627600000 1770629400000)
     = Inr (exClient2, exTherapist, 1770627600000, 1770629400000)"
    using w2 by (simp add: bookValidate_def bookPrecheck_def id_defs ex_defs js_defs Let_def)
  have c1: "bookConflictChecks exDb exClient exTherapist 1770627600000 1770631200000 = None"
    by (simp add: bookConflictChecks_def query_defs exDb_def)
  have c2: "bookConflictChecks exDb exClient2 exTherapist 1770627600000 1770629400000 = None"
    by (simp add: bookConflictChecks_def query_defs exDb_def)
  have i1: "bookInsert exDb exClient exTherapist 1770627600000 1770631200000 None
     = (Inr (exSession\<lparr>s_end := 1770631200000\<rparr>),
        exDb\<lparr>sessions := [exSession\<lparr>s_end := 1770631200000\<rparr>]\<rparr>)"
    by (simp add: bookInsert_def query_defs ex_defs Let_def)
  have i2: "bookInsert (exDb\<lparr>sessions := [exSession\<lparr>s_end := 1770631200000\<rparr>]\<rparr>)
        exClient2 exTherapist 1770627600000 1770629400000 None
     = (Inr (exSession\<lparr>sid := 2, client := exClient2\<rparr>),
        exDb\<lparr>sessions := [exSession\<lparr>s_end := 1770631200000\<rparr>,
                            exSession\<lparr>sid := 2, client := exClient2\<rparr>]\<rparr>)"
    by (simp add: bookInsert_def query_defs ex_defs Let_def)
  have n: "\<not> coreInvariant (exDb\<lparr>sessions := [exSession\<lparr>s_end := 1770631200000\<rparr>,
                            exSession\<lparr>sid := 2, client := exClient2\<rparr>]\<rparr>)"
    by (simp add: coreInvariant_def overlaps_def overlapQuery_def ex_defs)
  from v1 v2 c1 c2 i1 i2 n show ?thesis by blast
qed

theorem concurrent_double_booking_witness:
  "overlaps (exSession\<lparr>s_end := 1770631200000\<rparr>) (exSession\<lparr>sid := 2, client := exClient2\<rparr>)
   \<and> \<not> coreInvariant (exDb\<lparr>sessions := [exSession\<lparr>s_end := 1770631200000\<rparr>,
                            exSession\<lparr>sid := 2, client := exClient2\<rparr>]\<rparr>)"
  using concurrent_double_booking
  by (simp add: overlaps_def overlapQuery_def exSession_def)

subsection \<open>The availability check\<close>




















subsection \<open>Termination of slot slicing\<close>

lemma getMinutes_range: "0 \<le> getMinutes tz d \<and> getMinutes tz d < 60"
  by (simp add: getMinutes_def)

lemma setMinutes_advance:
  assumes "0 \<le> sm"
  shows "setMinutes tz cur (real_of_int (getMinutes tz cur) + sm) = cur + \<lfloor>sm\<rfloor> * 60000"
proof -
  have "0 \<le> real_of_int (getMinutes tz cur) + sm" using getMinutes_range[of tz cur] assms by simp
  then have "js_trunc (real_of_int (getMinutes tz cur) + sm) = getMinutes tz cur + \<lfloor>sm\<rfloor>"
    by (simp add: js_trunc_def)
  then show ?thesis by (simp add: setMinutes_def)
qed

lemma setMinutes_back:
  assumes "sm < 1"
  shows "setMinutes tz cur (real_of_int (getMinutes tz cur) + sm) \<le> cur"
proof -
  let ?mi = "getMinutes tz cur"
  have "js_trunc (real_of_int ?mi + sm) \<le> ?mi"
  proof (cases "0 \<le> real_of_int ?mi + sm")
    case True
    have "\<lfloor>real_of_int ?mi + sm\<rfloor> \<le> ?mi" using assms by linarith
    then show ?thesis using True by (simp add: js_trunc_def)
  next
    case False
    then have c: "\<lceil>real_of_int ?mi + sm\<rceil> \<le> 0" by linarith
    have "js_trunc (real_of_int ?mi + sm) = \<lceil>real_of_int ?mi + sm\<rceil>"
      using False by (simp add: js_trunc_def)
    then show ?thesis using c getMinutes_range[of tz cur] by linarith
  qed
  then show ?thesis by (simp add: setMinutes_def)
qed

text \<open>A loop that returned and ran at least once had a step of a minute or more.\<close>

lemma sliceLoop_stuck:
  assumes "sliceLoop tz tid sm cur e slots = Some y"
  shows "\<not> (sm < 1 \<and> real_of_int cur + sm * 60000 \<le> real_of_int e)"
proof (rule sliceLoop.raw_induct[where P = "\<lambda>tz tid sm cur e slots y.
          \<not> (sm < 1 \<and> real_of_int cur + sm * 60000 \<le> real_of_int e)", OF _ assms],
       goal_cases)
  case (1 f tz tid sm cur e slots y)
  show ?case
  proof
    assume a: "sm < 1 \<and> real_of_int cur + sm * 60000 \<le> real_of_int e"
    let ?cur' = "setMinutes tz cur (real_of_int (getMinutes tz cur) + sm)"
    have c: "?cur' \<le> cur" using setMinutes_back[of sm tz cur] a by simp
    from 1(2) a have "f tz tid sm ?cur' e (slots @ [\<lparr>slot_therapist = tid, slot_start = cur,
                         slot_end = js_trunc (real_of_int cur + sm * 60000)\<rparr>]) = Some y"
      by simp
    from 1(1)[OF this] have "\<not> (sm < 1 \<and> real_of_int ?cur' + sm * 60000 \<le> real_of_int e)" .
    moreover have "real_of_int ?cur' + sm * 60000 \<le> real_of_int e" using a c by linarith
    ultimately show False using a by simp
  qed
qed

lemma sliceLoop_hangs:
  "sm < 1 \<Longrightarrow> real_of_int cur + sm * 60000 \<le> real_of_int e
   \<Longrightarrow> sliceLoop tz tid sm cur e slots = None"
  using sliceLoop_stuck[of tz tid sm cur e slots]
  by (cases "sliceLoop tz tid sm cur e slots") auto

lemma durationMinutes_range: "5 \<le> durationMinutes q \<and> durationMinutes q \<le> 120"
  by (cases q) (auto simp: durationMinutes_def)

lemma durationMinutes_default: "durationMinutes NaN = 30 \<and> durationMinutes (Fin 0) = 30"
  by (simp add: durationMinutes_def)

lemma slotLoop_terminates_aux:
  "0 < d \<Longrightarrow> endM - m < real k * d \<Longrightarrow> \<exists>ys. slotLoop m endM d acc = Some ys"
proof (induction k arbitrary: m acc)
  case 0
  then have "\<not> m + d \<le> endM" by simp
  then show ?case by (subst slotLoop.simps) simp
next
  case (Suc k)
  show ?case
  proof (cases "m + d \<le> endM")
    case True
    have "endM - (m + d) < real k * d" using Suc.prems by (simp add: algebra_simps)
    from Suc.IH[OF Suc.prems(1) this]
    obtain ys where "slotLoop (m + d) endM d (acc @ [m]) = Some ys" by blast
    then show ?thesis using True by (subst slotLoop.simps) simp
  next
    case False
    then show ?thesis by (subst slotLoop.simps) simp
  qed
qed

lemma slotLoop_terminates:
  assumes "0 < d"
  shows "\<exists>ys. slotLoop m endM d acc = Some ys"
proof -
  obtain k :: nat where "endM - m < real k * d"
    using assms ex_less_of_nat_mult by blast
  with slotLoop_terminates_aux[OF assms] show ?thesis by blast
qed

lemma rangeLoop_terminates:
  "0 < d \<Longrightarrow> \<exists>ys. rangeLoop ranges d acc = Some ys"
proof (induction ranges arbitrary: acc)
  case Nil
  then show ?case by simp
next
  case (Cons r ranges)
  show ?case
  proof (cases "timeToMinutes_listing (a_startTime r)")
    case None
    then show ?thesis using Cons by simp
  next
    case (Some m)
    show ?thesis
    proof (cases "timeToMinutes_listing (a_endTime r)")
      case None
      then show ?thesis using Cons Some by simp
    next
      case (Some endM)
      obtain acc' where "slotLoop (real_of_int m) (real_of_int endM) d acc = Some acc'"
        using slotLoop_terminates[OF Cons.prems] by blast
      then show ?thesis using Cons \<open>timeToMinutes_listing (a_startTime r) = Some m\<close> Some by simp
    qed
  qed
qed

lemma generateSlotTimes_terminates:
  "0 < d \<Longrightarrow> \<exists>ys. generateSlotTimes ranges d = Some ys"
  using rangeLoop_terminates[of d ranges "[]"] by (auto simp: generateSlotTimes_def)

lemma therapistLoop_terminates:
  "0 < dm \<Longrightarrow> \<exists>res. therapistLoop d docs day dm ids result = Some res"
proof (induction ids arbitrary: result)
  case Nil
  then show ?case by simp
next
  case (Cons t ids)
  obtain allSlots where "generateSlotTimes (filter (\<lambda>a. a_therapist a = t) docs) dm = Some allSlots"
    using generateSlotTimes_terminates[OF Cons.prems] by blast
  then show ?case using Cons by (simp add: Let_def)
qed

lemma getAvailableSlots_returns: "\<exists>res. getAvailableSlots d dateParam q = Some res"
proof -
  have "0 < durationMinutes q" using durationMinutes_range[of q] by simp
  from therapistLoop_terminates[OF this] show ?thesis
    unfolding getAvailableSlots_def Let_def
    by (cases dateParam) (auto simp: Let_def)
qed

lemma sliceLoop_terminates_aux:
  "1 \<le> sm \<Longrightarrow> real_of_int e - real_of_int cur < real k * 60000
   \<Longrightarrow> \<exists>ys. sliceLoop tz tid sm cur e slots = Some ys"
proof (induction k arbitrary: cur slots)
  case 0
  then have "\<not> real_of_int cur + sm * 60000 \<le> real_of_int e"
    by (smt (verit) mult_nonneg_nonneg of_nat_0 mult_zero_left)
  then show ?case by (subst sliceLoop.simps) simp
next
  case (Suc k)
  show ?case
  proof (cases "real_of_int cur + sm * 60000 \<le> real_of_int e")
    case True
    let ?cur' = "setMinutes tz cur (real_of_int (getMinutes tz cur) + sm)"
    have f: "1 \<le> \<lfloor>sm\<rfloor>" using Suc.prems(1) by linarith
    have adv: "?cur' = cur + \<lfloor>sm\<rfloor> * 60000" using setMinutes_advance[of sm tz cur] Suc.prems(1) by simp
    have "real_of_int ?cur' \<ge> real_of_int cur + 60000" using f adv by simp
    then have "real_of_int e - real_of_int ?cur' < real k * 60000"
      using Suc.prems(2) by (simp add: algebra_simps)
    from Suc.IH[OF Suc.prems(1) this]
    obtain ys where "sliceLoop tz tid sm ?cur' e (slots @ [\<lparr>slot_therapist = tid, slot_start = cur,
                         slot_end = js_trunc (real_of_int cur + sm * 60000)\<rparr>]) = Some ys" by blast
    then show ?thesis using True by (subst sliceLoop.simps) simp
  next
    case False
    then show ?thesis by (subst sliceLoop.simps) simp
  qed
qed

lemma sliceLoop_terminates:
  assumes "1 \<le> sm"
  shows "\<exists>ys. sliceLoop tz tid sm cur e slots = Some ys"
proof -
  obtain k :: nat where "real_of_int e - real_of_int cur < real k * 60000"
    using ex_less_of_nat_mult[of 60000 "real_of_int e - real_of_int cur"] by auto
  with sliceLoop_terminates_aux[OF assms] show ?thesis by blast
qed

text \<open>
  C10 at a failing input. The listing clamps its duration into [5, 120], so its slicing
  loop ends for every input (\<open>getAvailableSlots_returns\<close>), and the slicing loop of
  \<^verbatim>\<open>findSlots\<close> ends when \<open>sessionMinutes\<close> is at least 1 (\<open>sliceLoop_terminates\<close>). For
  half a minute, which is greater than 0, the loop test adds 30000 ms to \<^verbatim>\<open>cur\<close> while
  \<^verbatim>\<open>cur.setMinutes(cur.getMinutes() + 0.5)\<close> rounds the minute field back to what it was:
  \<^verbatim>\<open>cur\<close> never moves and \<^verbatim>\<open>findSlots\<close> does not return.
\<close>

theorem slicing_hangs_below_one_minute:
  "(0::real) < 1 / 2
   \<and> findSlots exDb 0 exClient exTherapist 1770595200000 1770681600000 (1 / 2) = None"
proof -
  have h: "sliceLoop 0 exTherapist (1 / 2) 1770627600000 1770638400000 [] = None"
    by (rule sliceLoop_hangs) simp_all
  show ?thesis using h
    by (simp add: slot_defs ex_defs js_defs Let_def)
qed

subsection \<open>What the slot generators produce\<close>
























end
